theory Spec2Isabelle
  imports Complex_Main "HOL-Library.Char_ord" "HOL-Library.List_Lexorder"
begin

section \<open>Python values and built-ins\<close>

text \<open>
  The trading decisions come out of \<^verbatim>\<open>json.loads\<close>, so a decision field is an arbitrary
  JSON value. Python's floats are modelled as exact rationals (finite values only); Python's
  unbounded integers as \<^typ>\<open>int\<close>; a \<^verbatim>\<open>dict\<close> as an association list in insertion
  order, read with \<^const>\<open>map_of\<close>.
\<close>

type_synonym symbol = string

datatype json =
    JNull
  | JBool bool
  | JInt int
  | JFloat rat
  | JStr string
  | JArr "json list"
  | JObj "(string \<times> json) list"

text \<open>The exceptions the modelled code can raise; \<open>LedgerError\<close> is whatever a ledger call raises.\<close>

datatype py_exn =
    AttributeError
  | TypeError
  | ValueError
  | KeyError string
  | ZeroDivisionError
  | JSONDecodeError
  | LedgerError string

text \<open>
  \<^verbatim>\<open>int(s)\<close> and \<^verbatim>\<open>float(s)\<close> on a string follow Python's numeric grammar, which is not part
  of the repository: both readers are parameters (\<open>None\<close> is \<^verbatim>\<open>ValueError\<close>).
\<close>

record py_builtins =
  int_of_str :: "string \<Rightarrow> int option"
  float_of_str :: "string \<Rightarrow> rat option"

text \<open>\<^verbatim>\<open>int(x)\<close> on a float truncates towards zero.\<close>

definition py_trunc :: "rat \<Rightarrow> int" where
  "py_trunc x = (if 0 \<le> x then \<lfloor>x\<rfloor> else \<lceil>x\<rceil>)"

fun py_int :: "py_builtins \<Rightarrow> json \<Rightarrow> py_exn + int" where
  "py_int bi (JInt i) = Inr i"
| "py_int bi (JFloat x) = Inr (py_trunc x)"
| "py_int bi (JBool b) = Inr (if b then 1 else 0)"
| "py_int bi (JStr s) = (case int_of_str bi s of None \<Rightarrow> Inl ValueError | Some i \<Rightarrow> Inr i)"
| "py_int bi JNull = Inl TypeError"
| "py_int bi (JArr xs) = Inl TypeError"
| "py_int bi (JObj kvs) = Inl TypeError"

fun py_float :: "py_builtins \<Rightarrow> json \<Rightarrow> py_exn + rat" where
  "py_float bi (JInt i) = Inr (of_int i)"
| "py_float bi (JFloat x) = Inr x"
| "py_float bi (JBool b) = Inr (if b then 1 else 0)"
| "py_float bi (JStr s) = (case float_of_str bi s of None \<Rightarrow> Inl ValueError | Some x \<Rightarrow> Inr x)"
| "py_float bi JNull = Inl TypeError"
| "py_float bi (JArr xs) = Inl TypeError"
| "py_float bi (JObj kvs) = Inl TypeError"

text \<open>\<^verbatim>\<open>d.get(key, default)\<close>.\<close>

definition dict_get :: "(string \<times> json) list \<Rightarrow> string \<Rightarrow> json \<Rightarrow> json" where
  "dict_get d k dflt = (case map_of d k of None \<Rightarrow> dflt | Some v \<Rightarrow> v)"

text \<open>\<^verbatim>\<open>a / b\<close> raises on a zero divisor.\<close>

definition py_div :: "rat \<Rightarrow> rat \<Rightarrow> py_exn + rat" where
  "py_div a b = (if b = 0 then Inl ZeroDivisionError else Inr (a / b))"

text \<open>\<^verbatim>\<open>str.lower\<close>, on the ASCII letters (the signal names are ASCII).\<close>

definition lower_char :: "char \<Rightarrow> char" where
  "lower_char c =
     (case map_of (zip ''ABCDEFGHIJKLMNOPQRSTUVWXYZ'' ''abcdefghijklmnopqrstuvwxyz'') c of
        None \<Rightarrow> c
      | Some d \<Rightarrow> d)"

definition lower :: "string \<Rightarrow> string" where
  "lower s = map lower_char s"

section \<open>Portfolio, ledger and execution results (trading\_engine.py)\<close>

record position =
  coin :: symbol
  quantity :: rat
  avg_price :: rat
  side :: string
  leverage :: int

record portfolio =
  cash :: rat
  positions :: "position list"

text \<open>A row handed to \<^verbatim>\<open>db.add_trade\<close>.\<close>

record trade =
  t_coin :: symbol
  t_signal :: string
  t_quantity :: rat
  t_price :: rat
  t_leverage :: int
  t_side :: string
  t_pnl :: rat
  t_fee :: rat

text \<open>
  The ledger (\<^verbatim>\<open>self.db\<close>) is an external collaborator: its state is an abstract type
  and its three mutating calls are parameters. Each either raises or returns the new state.
\<close>

record 'db ledger =
  update_position :: "'db \<Rightarrow> symbol \<Rightarrow> int \<Rightarrow> rat \<Rightarrow> int \<Rightarrow> string \<Rightarrow> py_exn + 'db"
  close_position :: "'db \<Rightarrow> symbol \<Rightarrow> string \<Rightarrow> py_exn + 'db"
  add_trade :: "'db \<Rightarrow> trade \<Rightarrow> py_exn + 'db"

text \<open>The \<^verbatim>\<open>'error'\<close> texts of a result; \<open>Raised e\<close> is \<^verbatim>\<open>str(e)\<close> of a caught exception.\<close>

datatype exec_error =
    MaxPositions
  | InsufficientCash
  | InsufficientFunds
  | ShortUnsupported
  | NoPositionToClose
  | PositionNotFound
  | UnknownSignal string
  | Raised py_exn

text \<open>
  The result dictionaries. \<open>RBuy coin quantity price leverage fee\<close> and
  \<open>RClose coin quantity price pnl fee\<close>; the formatted \<^verbatim>\<open>'message'\<close> text is left out.
\<close>

datatype exec_result =
    RError symbol exec_error
  | RHold symbol
  | RBuy symbol int rat int rat
  | RClose symbol rat rat rat rat

definition max_positions :: nat where
  "max_positions = 3"

text \<open>
  The ledger calls that end \<^verbatim>\<open>_execute_buy\<close> (lines 181--210): a failing call is re-raised,
  and the state is the one the last successful call left.
\<close>

definition buy_commit ::
  "'db ledger \<Rightarrow> symbol \<Rightarrow> int \<Rightarrow> rat \<Rightarrow> int \<Rightarrow> rat \<Rightarrow> 'db \<Rightarrow> 'db \<times> (py_exn + exec_result)" where
  "buy_commit lg symbol q price lev trade_fee db =
     (case update_position lg db symbol q price lev ''long'' of
        Inl e \<Rightarrow> (db, Inl e)
      | Inr db1 \<Rightarrow>
          (case add_trade lg db1
                  \<lparr>t_coin = symbol, t_signal = ''buy_to_enter'', t_quantity = of_int q,
                   t_price = price, t_leverage = lev, t_side = ''long'', t_pnl = 0,
                   t_fee = trade_fee\<rparr> of
             Inl e \<Rightarrow> (db1, Inl e)
           | Inr db2 \<Rightarrow> (db2, Inr (RBuy symbol q price lev trade_fee))))"

text \<open>
  Lines 161--162: \<^verbatim>\<open>risk_pct = float(...) / 100; risk_pct = min(max(risk_pct, 0.01), 0.05)\<close>,
  on the converted number.
\<close>

definition clamp_risk_pct :: "rat \<Rightarrow> rat" where
  "clamp_risk_pct rb = min (max (rb / 100) (1 / 100)) (5 / 100)"

text \<open>
  Lines 166--167: the requested quantity is kept when it lies in \<open>1 .. max_affordable_qty\<close>
  and replaced otherwise.
\<close>

definition resize_quantity :: "int \<Rightarrow> int \<Rightarrow> int \<Rightarrow> int" where
  "resize_quantity requested max_affordable_qty risk_based_qty =
     (if requested \<le> 0 \<or> max_affordable_qty < requested
      then min max_affordable_qty
             (if 0 < risk_based_qty then risk_based_qty else max_affordable_qty)
      else requested)"

text \<open>
  \<^verbatim>\<open>_execute_buy\<close>, statement by statement. \<open>market_state\<close> gives the price of a symbol
  (\<^verbatim>\<open>market_state[symbol]['price']\<close>, a \<^verbatim>\<open>KeyError\<close> when the symbol is missing).
\<close>

definition execute_buy ::
  "py_builtins \<Rightarrow> 'db ledger \<Rightarrow> rat \<Rightarrow> symbol \<Rightarrow> (string \<times> json) list \<Rightarrow>
   (symbol \<Rightarrow> rat option) \<Rightarrow> portfolio \<Rightarrow> 'db \<Rightarrow> 'db \<times> (py_exn + exec_result)" where
  "execute_buy bi lg fee_rate symbol decision market_state pf db =
     (let quantity0 = dict_get decision ''quantity'' (JInt 0) in
      case py_int bi (dict_get decision ''leverage'' (JInt 1)) of
        Inl e \<Rightarrow> (db, Inl e)
      | Inr lev \<Rightarrow>
      (case market_state symbol of
        None \<Rightarrow> (db, Inl (KeyError symbol))
      | Some price \<Rightarrow>
      (let existing_symbols = remdups (map coin (positions pf)) in
       if symbol \<notin> set existing_symbols \<and> max_positions \<le> length existing_symbols
       then (db, Inr (RError symbol MaxPositions))
       else
      (case py_div (cash pf) (price * (1 + fee_rate)) of
        Inl e \<Rightarrow> (db, Inl e)
      | Inr afford \<Rightarrow>
      (let max_affordable_qty = py_trunc afford in
       case py_float bi (dict_get decision ''risk_budget_pct'' (JInt 3)) of
        Inl e \<Rightarrow> (db, Inl e)
      | Inr rb \<Rightarrow>
      (let risk_pct = clamp_risk_pct rb in
       case py_div (cash pf * risk_pct) (price * (1 + fee_rate)) of
        Inl e \<Rightarrow> (db, Inl e)
      | Inr risk \<Rightarrow>
      (let risk_based_qty = py_trunc risk in
       case py_int bi quantity0 of
        Inl e \<Rightarrow> (db, Inl e)
      | Inr requested \<Rightarrow>
      (let q = resize_quantity requested max_affordable_qty risk_based_qty in
       if q \<le> 0 then (db, Inr (RError symbol InsufficientCash))
       else
         (let trade_amount = of_int q * price;
              trade_fee = trade_amount * fee_rate in
          case py_div (of_int q * price) (of_int lev) of
            Inl e \<Rightarrow> (db, Inl e)
          | Inr required_margin \<Rightarrow>
              if cash pf < required_margin + trade_fee
              then (db, Inr (RError symbol InsufficientFunds))
              else buy_commit lg symbol q price lev trade_fee db)))))))))"

text \<open>
  \<^verbatim>\<open>_execute_close\<close>: the first position of the symbol is closed in full. The decision
  itself is not read.
\<close>

definition execute_close ::
  "'db ledger \<Rightarrow> rat \<Rightarrow> symbol \<Rightarrow> (string \<times> json) list \<Rightarrow>
   (symbol \<Rightarrow> rat option) \<Rightarrow> portfolio \<Rightarrow> 'db \<Rightarrow> 'db \<times> (py_exn + exec_result)" where
  "execute_close lg fee_rate symbol decision market_state pf db =
     (case find (\<lambda>pos. coin pos = symbol) (positions pf) of
        None \<Rightarrow> (db, Inr (RError symbol PositionNotFound))
      | Some pos \<Rightarrow>
      (case market_state symbol of
        None \<Rightarrow> (db, Inl (KeyError symbol))
      | Some current_price \<Rightarrow>
      (let entry_price = avg_price pos;
           q = quantity pos;
           sd = side pos;
           gross_pnl = (if sd = ''long'' then (current_price - entry_price) * q
                        else (entry_price - current_price) * q);
           trade_amount = q * current_price;
           trade_fee = trade_amount * fee_rate;
           net_pnl = gross_pnl - trade_fee in
       case close_position lg db symbol sd of
         Inl e \<Rightarrow> (db, Inl e)
       | Inr db1 \<Rightarrow>
           (case add_trade lg db1
                   \<lparr>t_coin = symbol, t_signal = ''close_position'', t_quantity = q,
                    t_price = current_price, t_leverage = leverage pos, t_side = sd,
                    t_pnl = net_pnl, t_fee = trade_fee\<rparr> of
              Inl e \<Rightarrow> (db1, Inl e)
            | Inr db2 \<Rightarrow> (db2, Inr (RClose symbol q current_price net_pnl trade_fee))))))"

text \<open>
  The body of the \<^verbatim>\<open>try\<close> in \<^verbatim>\<open>_execute_decisions\<close> (lines 128--140): the dispatch on the
  lowercased signal.
\<close>

definition execute_signal ::
  "py_builtins \<Rightarrow> 'db ledger \<Rightarrow> rat \<Rightarrow> string \<Rightarrow> symbol \<Rightarrow> (string \<times> json) list \<Rightarrow>
   (symbol \<Rightarrow> rat option) \<Rightarrow> portfolio \<Rightarrow> 'db \<Rightarrow> 'db \<times> (py_exn + exec_result)" where
  "execute_signal bi lg fee_rate signal symbol decision market_state pf db =
     (if signal = ''buy_to_enter''
      then execute_buy bi lg fee_rate symbol decision market_state pf db
      else if signal = ''sell_to_enter''
      then (db, Inr (RError symbol ShortUnsupported))
      else if signal = ''close_position''
      then (if symbol \<notin> set (map coin (positions pf))
            then (db, Inr (RError symbol NoPositionToClose))
            else execute_close lg fee_rate symbol decision market_state pf db)
      else if signal = ''hold''
      then (db, Inr (RHold symbol))
      else (db, Inr (RError symbol (UnknownSignal signal))))"

text \<open>
  The loop of \<^verbatim>\<open>_execute_decisions\<close> over \<^verbatim>\<open>decisions.items()\<close>. Line 125,
  \<^verbatim>\<open>signal = decision.get('signal', '').lower()\<close>, stands before the \<^verbatim>\<open>try\<close>: a decision
  that is no object, or a signal that is no string, raises \<^verbatim>\<open>AttributeError\<close> out of the
  loop. Inside the \<^verbatim>\<open>try\<close> every exception becomes an error result of the symbol.
\<close>

fun execute_decisions_loop ::
  "py_builtins \<Rightarrow> 'db ledger \<Rightarrow> rat \<Rightarrow> symbol list \<Rightarrow> (symbol \<Rightarrow> rat option) \<Rightarrow> portfolio \<Rightarrow>
   (symbol \<times> json) list \<Rightarrow> exec_result list \<Rightarrow> 'db \<Rightarrow> 'db \<times> (py_exn + exec_result list)" where
  "execute_decisions_loop bi lg fee_rate tracked market_state pf [] results db =
     (db, Inr results)"
| "execute_decisions_loop bi lg fee_rate tracked market_state pf ((symbol, decision) # rest)
     results db =
     (if symbol \<notin> set tracked
      then execute_decisions_loop bi lg fee_rate tracked market_state pf rest results db
      else
        (case decision of
           JObj kvs \<Rightarrow>
             (case dict_get kvs ''signal'' (JStr []) of
                JStr s \<Rightarrow>
                  (case execute_signal bi lg fee_rate (lower s) symbol kvs market_state pf db of
                     (db', r) \<Rightarrow>
                       execute_decisions_loop bi lg fee_rate tracked market_state pf rest
                         (results @ [case r of Inl e \<Rightarrow> RError symbol (Raised e)
                                             | Inr res \<Rightarrow> res])
                         db')
              | _ \<Rightarrow> (db, Inl AttributeError))
         | _ \<Rightarrow> (db, Inl AttributeError)))"

definition execute_decisions ::
  "py_builtins \<Rightarrow> 'db ledger \<Rightarrow> rat \<Rightarrow> symbol list \<Rightarrow> (symbol \<times> json) list \<Rightarrow>
   (symbol \<Rightarrow> rat option) \<Rightarrow> portfolio \<Rightarrow> 'db \<Rightarrow> 'db \<times> (py_exn + exec_result list)" where
  "execute_decisions bi lg fee_rate tracked decisions market_state pf db =
     execute_decisions_loop bi lg fee_rate tracked market_state pf decisions [] db"


section \<open>Technical indicators (market\_data.py)\<close>

text \<open>
  \<^verbatim>\<open>calculate_technical_indicators\<close> on the prices of the fetched history (oldest first); the
  fetch itself is the quote source's. \<open>None\<close> is the empty dictionary the code returns.
  \<^verbatim>\<open>xs[-k:]\<close> is \<open>last_n k xs\<close> (the whole list when it is shorter than \<open>k\<close>), and
  \<^verbatim>\<open>xs[-k]\<close> is read at \<open>length xs - k\<close>, only where the list is long enough.
\<close>

record indicators =
  sma_5 :: rat
  sma_20 :: rat
  rsi_14 :: rat
  change_5d :: rat
  change_20d :: rat
  current_price :: rat




section \<open>The response parser (ai\_trader.py)\<close>

text \<open>
  Strings are lists of characters. \<^verbatim>\<open>str.strip()\<close> removes the ASCII whitespace Python
  knows (tab, line feed, vertical tab, form feed, carriage return, the four separators
  0x1C--0x1F and the space) from both ends.
\<close>

definition py_space :: "char \<Rightarrow> bool" where
  "py_space c =
     (c \<in> set [CHR 0x09, CHR 0x0A, CHR 0x0B, CHR 0x0C, CHR 0x0D,
                CHR 0x1C, CHR 0x1D, CHR 0x1E, CHR 0x1F, CHR 0x20])"

definition strip :: "string \<Rightarrow> string" where
  "strip s = rev (dropWhile py_space (rev (dropWhile py_space s)))"


text \<open>\<^verbatim>\<open>s.startswith(sep)\<close>, and the index of the first occurrence of \<open>sep\<close> (\<^verbatim>\<open>s.find(sep)\<close>).\<close>

definition startswith :: "string \<Rightarrow> string \<Rightarrow> bool" where
  "startswith s sep = (take (length sep) s = sep)"

fun find_sub :: "string \<Rightarrow> string \<Rightarrow> nat option" where
  "find_sub sep [] = (if sep = [] then Some 0 else None)"
| "find_sub sep (c # cs) =
     (if startswith (c # cs) sep then Some 0 else map_option Suc (find_sub sep cs))"


text \<open>
  \<^verbatim>\<open>s.split(sep)\<close> for a non-empty separator: the pieces between the occurrences, left to
  right. (Python raises on an empty separator; the parser only splits at the two fences.)
\<close>

function py_split :: "string \<Rightarrow> string \<Rightarrow> string list" where
  "py_split sep s =
     (case find_sub sep s of
        None \<Rightarrow> [s]
      | Some i \<Rightarrow> if sep = [] then [s] else take i s # py_split sep (drop (i + length sep) s))"
  by pat_completeness auto
termination
proof (relation "measure (\<lambda>(sep, s). length s)")
  show "wf (measure (\<lambda>(sep, s). length s))" by simp
next
  fix sep s :: string and i
  assume "find_sub sep s = Some i" "sep \<noteq> []"
  then have "s \<noteq> []" by (cases s) auto
  then show "((sep, drop (i + length sep) s), (sep, s)) \<in> measure (\<lambda>(sep, s). length s)"
    using \<open>sep \<noteq> []\<close> by simp
qed

declare py_split.simps [simp del]

text \<open>\<^verbatim>\<open>sep.join(xs)\<close>.\<close>

fun join :: "string \<Rightarrow> string list \<Rightarrow> string" where
  "join sep [] = []"
| "join sep [x] = x"
| "join sep (x # y # ys) = x @ sep @ join sep (y # ys)"






section \<open>The tiered quote cache (market\_data.py)\<close>

text \<open>
  A configured stock, a stored closing price, and a quote dictionary. The optional keys of a
  quote (\<^verbatim>\<open>change_24h\<close>, \<^verbatim>\<open>source\<close>, \<^verbatim>\<open>price_date\<close>) are options: \<open>None\<close> is a missing key.
\<close>

record stock =
  s_symbol :: symbol
  s_name :: string
  s_exchange :: string

record stored_price =
  sp_price :: rat
  sp_date :: "string option"

record quote =
  q_price :: rat
  q_name :: string
  q_exchange :: string
  q_change_24h :: "rat option"
  q_source :: "string option"
  q_price_date :: "string option"

type_synonym quotes = "(symbol \<times> quote) list"

text \<open>
  The fetcher's fields. The cache and the last live snapshot may hold the same dictionary
  object (\<^verbatim>\<open>self._last_live_prices = live_prices\<close>), and \<^verbatim>\<open>get_prices\<close> writes into the
  dictionaries it was handed, so the dictionaries live in a heap and the fields hold
  addresses. A cache entry is the address and the time it was stored.
\<close>

record fetcher =
  f_heap :: "quotes list"
  f_cache :: "(string \<times> nat \<times> rat) list"
  f_last_market_open_state :: bool
  f_last_live_prices :: nat
  f_last_live_date :: "string option"

definition new_fetcher :: fetcher where
  "new_fetcher =
     \<lparr>f_heap = [[]], f_cache = [], f_last_market_open_state = False,
      f_last_live_prices = 0, f_last_live_date = None\<rparr>"

definition alloc :: "quotes \<Rightarrow> fetcher \<Rightarrow> nat \<times> fetcher" where
  "alloc d st = (length (f_heap st), st\<lparr>f_heap := f_heap st @ [d]\<rparr>)"

text \<open>\<^verbatim>\<open>d[k] = v\<close>: an existing key keeps its place, a new one goes last.\<close>

fun dict_set :: "'k \<Rightarrow> 'v \<Rightarrow> ('k \<times> 'v) list \<Rightarrow> ('k \<times> 'v) list" where
  "dict_set k v [] = [(k, v)]"
| "dict_set k v ((k', v') # kvs) =
     (if k' = k then (k, v) # kvs else (k', v') # dict_set k v kvs)"

text \<open>
  The store of daily closing prices is the external ledger's: its state is abstract and its
  two calls are parameters. \<^verbatim>\<open>symbols\<close> is \<open>None\<close> for Python's \<^verbatim>\<open>None\<close>.
\<close>

record 'st price_store =
  get_latest_daily_prices ::
    "'st \<Rightarrow> symbol list option \<Rightarrow> py_exn + (symbol \<times> stored_price) list"
  upsert_daily_price :: "'st \<Rightarrow> symbol \<Rightarrow> rat \<Rightarrow> string \<Rightarrow> py_exn + 'st"

text \<open>
  \<^verbatim>\<open>is_within_trading_window\<close> on times of day (seconds since midnight); the two bounds are
  the parsed settings.
\<close>

definition is_within_trading_window :: "rat \<Rightarrow> rat \<Rightarrow> rat \<Rightarrow> bool" where
  "is_within_trading_window start_time end_time now_time =
     (if start_time \<le> end_time then start_time \<le> now_time \<and> now_time \<le> end_time
      else start_time \<le> now_time \<or> now_time \<le> end_time)"

text \<open>\<^verbatim>\<open>s.strip(chars)\<close>.\<close>

definition strip_chars :: "string \<Rightarrow> string \<Rightarrow> string" where
  "strip_chars cs s =
     rev (dropWhile (\<lambda>c. c \<in> set cs) (rev (dropWhile (\<lambda>c. c \<in> set cs) s)))"

text \<open>
  One line of the quote feed with its stock (the body of the loop at lines 205--226);
  \<open>None\<close> is \<^verbatim>\<open>continue\<close>.
\<close>

definition parse_quote_line :: "py_builtins \<Rightarrow> string \<Rightarrow> stock \<Rightarrow> (symbol \<times> quote) option" where
  "parse_quote_line bi line st =
     (let parts = py_split ''='' line in
      if length parts \<noteq> 2 \<or> strip_chars [CHR 0x22] (strip_chars '';'' (strip (parts ! 1))) = []
      then None
      else
        (let data_str = strip_chars [CHR 0x22] (strip_chars '';'' (strip (parts ! 1)));
             fields = py_split '','' data_str in
         if length fields < 4 then None
         else
           (let (px, prev_close) =
                  (case float_of_str bi (fields ! 3) of
                     None \<Rightarrow> (0, 0)
                   | Some a \<Rightarrow>
                       if fields ! 2 = [] then (a, 0)
                       else (case float_of_str bi (fields ! 2) of
                               None \<Rightarrow> (0, 0)
                             | Some b \<Rightarrow> (a, b)));
                change_pct = (if prev_close \<noteq> 0 then (px - prev_close) / prev_close * 100 else 0)
            in Some (s_symbol st,
                     \<lparr>q_price = px,
                      q_name = (if fields ! 0 = [] then s_name st else fields ! 0),
                      q_exchange = s_exchange st,
                      q_change_24h = Some change_pct,
                      q_source = None, q_price_date = None\<rparr>))))"

definition parse_quotes :: "py_builtins \<Rightarrow> stock list \<Rightarrow> string \<Rightarrow> quotes" where
  "parse_quotes bi stocks text =
     foldl (\<lambda>prices (line, st).
              case parse_quote_line bi line st of
                None \<Rightarrow> prices
              | Some (k, v) \<Rightarrow> dict_set k v prices)
       [] (zip (py_split [CHR 0x0A] (strip text)) stocks)"

text \<open>The dictionary of line 233, returned when the request or the parsing raised.\<close>

definition degraded_of :: "stock \<Rightarrow> quote" where
  "degraded_of s =
     \<lparr>q_price = 0, q_name = s_name s, q_exchange = s_exchange s,
      q_change_24h = None, q_source = None, q_price_date = None\<rparr>"

definition degraded_quotes :: "stock list \<Rightarrow> quotes" where
  "degraded_quotes stocks =
     foldl (\<lambda>prices s. dict_set (s_symbol s) (degraded_of s) prices) [] stocks"

text \<open>
  \<^verbatim>\<open>get_current_prices\<close>. \<open>configured\<close> are the configured stocks, \<open>resp\<close> what the HTTP
  request of this call gives if it is made (an exception, or the body), \<open>t\<close> is
  \<^verbatim>\<open>time.time()\<close>. The result is the address of the returned dictionary.
\<close>

definition get_current_prices ::
  "py_builtins \<Rightarrow> rat \<Rightarrow> stock list \<Rightarrow> py_exn + string \<Rightarrow> rat \<Rightarrow> symbol list option \<Rightarrow>
   fetcher \<Rightarrow> nat \<times> fetcher" where
  "get_current_prices bi cache_duration configured resp t symbols st =
     (if configured = [] then alloc [] st
      else
        (let stocks = (case symbols of
                         None \<Rightarrow> configured
                       | Some syms \<Rightarrow>
                           if syms = [] then configured
                           else filter (\<lambda>s. s_symbol s \<in> set syms) configured) in
         if stocks = [] then alloc [] st
         else
           (let cache_key = ''prices_'' @ join ''_'' (sort (map s_symbol stocks));
                hit = (case map_of (f_cache st) cache_key of
                         None \<Rightarrow> None
                       | Some (addr, stored_at) \<Rightarrow>
                           if t - stored_at < cache_duration then Some addr else None)
            in case hit of
                 Some addr \<Rightarrow> (addr, st)
               | None \<Rightarrow>
                   (case resp of
                      Inl e \<Rightarrow> alloc (degraded_quotes stocks) st
                    | Inr text \<Rightarrow>
                        (case alloc (parse_quotes bi stocks text) st of
                           (addr, st') \<Rightarrow>
                             (addr, st'\<lparr>f_cache := dict_set cache_key (addr, t) (f_cache st')\<rparr>))))))"

text \<open>\<^verbatim>\<open>_format_stored_prices\<close>.\<close>

definition format_stored_prices ::
  "stock list \<Rightarrow> (symbol \<times> stored_price) list \<Rightarrow> symbol list option \<Rightarrow> quotes" where
  "format_stored_prices configured stored_prices symbols =
     (let stock_map = foldl (\<lambda>m s. dict_set (s_symbol s) s m) [] configured;
          target_symbols =
            (case symbols of
               Some syms \<Rightarrow> if syms \<noteq> [] then syms
                             else if stock_map \<noteq> [] then map fst stock_map
                             else map fst stored_prices
             | None \<Rightarrow> if stock_map \<noteq> [] then map fst stock_map else map fst stored_prices)
      in foldl (\<lambda>formatted symbol.
                  case map_of stored_prices symbol of
                    None \<Rightarrow> formatted
                  | Some stored \<Rightarrow>
                      dict_set symbol
                        \<lparr>q_price = sp_price stored,
                         q_name = (case map_of stock_map symbol of
                                     None \<Rightarrow> symbol | Some s \<Rightarrow> s_name s),
                         q_exchange = (case map_of stock_map symbol of
                                         None \<Rightarrow> [] | Some s \<Rightarrow> s_exchange s),
                         q_change_24h = Some 0,
                         q_source = Some ''closing'',
                         q_price_date = sp_date stored\<rparr> formatted)
           [] target_symbols)"

text \<open>
  A failing \<^verbatim>\<open>upsert_daily_price\<close> is caught and printed (lines 107--110 and 149--152): the
  store stays as it was.
\<close>

definition try_upsert :: "'st price_store \<Rightarrow> symbol \<Rightarrow> rat \<Rightarrow> string \<Rightarrow> 'st \<Rightarrow> 'st" where
  "try_upsert store symbol px date db =
     (case upsert_daily_price store db symbol px date of Inl e \<Rightarrow> db | Inr db' \<Rightarrow> db')"

text \<open>\<^verbatim>\<open>_persist_closing_prices\<close>.\<close>

definition persist_closing_prices :: "'st price_store \<Rightarrow> fetcher \<Rightarrow> 'st \<Rightarrow> 'st" where
  "persist_closing_prices store st db =
     (case f_last_live_date st of
        None \<Rightarrow> db
      | Some price_date \<Rightarrow>
          if f_heap st ! f_last_live_prices st = [] then db
          else foldl (\<lambda>d (symbol, payload). try_upsert store symbol (q_price payload) price_date d)
                 db (f_heap st ! f_last_live_prices st))"

definition tag_quote :: "string \<Rightarrow> string \<Rightarrow> quote \<Rightarrow> quote" where
  "tag_quote src date payload = payload\<lparr>q_source := Some src, q_price_date := Some date\<rparr>"

text \<open>
  One round of the loop at lines 144--152, for a quote of the dictionary at \<open>addr\<close>: the
  quote is tagged in place, put into \<open>formatted\<close>, copied into the last live snapshot, and
  persisted.
\<close>

definition fallback_step ::
  "'st price_store \<Rightarrow> string \<Rightarrow> nat \<Rightarrow> quotes \<times> fetcher \<times> 'st \<Rightarrow> symbol \<times> quote \<Rightarrow>
   quotes \<times> fetcher \<times> 'st" where
  "fallback_step store price_date addr acc item =
     (case (acc, item) of
        ((formatted, st, db), (symbol, payload0)) \<Rightarrow>
          (let payload = tag_quote ''live_fallback'' price_date payload0;
               heap1 = (f_heap st)[addr := dict_set symbol payload (f_heap st ! addr)];
               live = f_last_live_prices st;
               heap2 = heap1[live := dict_set symbol payload (heap1 ! live)]
           in (dict_set symbol payload formatted,
               st\<lparr>f_heap := heap2\<rparr>,
               try_upsert store symbol (q_price payload) price_date db)))"

text \<open>
  \<^verbatim>\<open>get_prices\<close>. \<open>now_time\<close> and \<open>today\<close> are the time of day and the formatted date of
  \<^verbatim>\<open>datetime.now()\<close>. The result is the returned dictionary (or the exception of the
  store's read), the fetcher and the store afterwards.
\<close>

definition get_prices ::
  "py_builtins \<Rightarrow> rat \<Rightarrow> 'st price_store \<Rightarrow> stock list \<Rightarrow> rat \<Rightarrow> rat \<Rightarrow> rat \<Rightarrow> string \<Rightarrow>
   py_exn + string \<Rightarrow> rat \<Rightarrow> symbol list option \<Rightarrow> fetcher \<Rightarrow> 'st \<Rightarrow>
   (py_exn + quotes) \<times> fetcher \<times> 'st" where
  "get_prices bi cache_duration store configured start_time end_time now_time today resp t
     symbols st0 db0 =
     (let market_open = is_within_trading_window start_time end_time now_time;
          db1 = (if \<not> market_open \<and> f_last_market_open_state st0
                 then persist_closing_prices store st0 db0 else db0);
          st1 = st0\<lparr>f_last_market_open_state := market_open\<rparr>
      in
      if market_open
      then
        (case get_current_prices bi cache_duration configured resp t symbols st1 of
           (addr, st2) \<Rightarrow>
             if f_heap st2 ! addr \<noteq> []
             then
               (let tagged = map (\<lambda>(k, payload). (k, tag_quote ''live'' today payload))
                               (f_heap st2 ! addr)
                in (Inr tagged,
                    st2\<lparr>f_heap := (f_heap st2)[addr := tagged],
                        f_last_live_prices := addr,
                        f_last_live_date := Some today\<rparr>,
                    db1))
             else (Inr (f_heap st2 ! addr), st2, db1))
      else
        (case get_latest_daily_prices store db1 symbols of
           Inl e \<Rightarrow> (Inl e, st1, db1)
         | Inr stored_prices \<Rightarrow>
             (let formatted = format_stored_prices configured stored_prices symbols;
                  target_symbols =
                    (case symbols of
                       Some syms \<Rightarrow> if syms \<noteq> [] then syms else map s_symbol configured
                     | None \<Rightarrow> map s_symbol configured);
                  missing_symbols = filter (\<lambda>sy. map_of formatted sy = None) target_symbols
              in
              case
                (if missing_symbols \<noteq> []
                 then
                   (case get_current_prices bi cache_duration configured resp t
                           (Some missing_symbols) st1 of
                      (addr, st2) \<Rightarrow>
                        if f_heap st2 ! addr \<noteq> []
                        then
                          (let st3 = (if f_heap st2 ! f_last_live_prices st2 = []
                                      then (case alloc [] st2 of
                                              (fresh, s) \<Rightarrow> s\<lparr>f_last_live_prices := fresh\<rparr>)
                                      else st2)
                           in case foldl (fallback_step store today addr)
                                     (formatted, st3, db1) (f_heap st2 ! addr) of
                                (formatted', st4, db2) \<Rightarrow>
                                  (formatted', st4\<lparr>f_last_live_date := Some today\<rparr>, db2))
                        else (formatted, st2, db1))
                 else (formatted, st1, db1))
              of (formatted', st5, db3) \<Rightarrow>
                if formatted' = [] \<and> f_heap st5 ! f_last_live_prices st5 \<noteq> []
                then
                  (Inr (map (\<lambda>(symbol, payload).
                               (symbol,
                                payload\<lparr>q_source :=
                                          Some (case q_source payload of
                                                  None \<Rightarrow> ''previous_live''
                                                | Some src \<Rightarrow> src),
                                        q_price_date :=
                                          (case q_price_date payload of
                                             None \<Rightarrow> f_last_live_date st5
                                           | Some d \<Rightarrow>
                                               if d \<noteq> [] then Some d
                                               else f_last_live_date st5)\<rparr>))
                          (filter (\<lambda>(symbol, payload).
                                     case symbols of
                                       None \<Rightarrow> True
                                     | Some syms \<Rightarrow> syms = [] \<or> symbol \<in> set syms)
                             (f_heap st5 ! f_last_live_prices st5))),
                   st5, db3)
                else (Inr formatted', st5, db3))))"

section \<open>The spec's sizing rule\<close>


section \<open>Fixtures for concrete runs\<close>

text \<open>
  A ledger whose state counts the calls that succeeded, string readers that accept nothing,
  and a market with one quoted symbol.
\<close>

definition counting_ledger :: "nat ledger" where
  "counting_ledger =
     \<lparr>update_position = (\<lambda>db symbol q price lev sd. Inr (Suc db)),
      close_position = (\<lambda>db symbol sd. Inr (Suc db)),
      add_trade = (\<lambda>db t. Inr (Suc db))\<rparr>"

definition no_str_numbers :: py_builtins where
  "no_str_numbers = \<lparr>int_of_str = (\<lambda>s. None), float_of_str = (\<lambda>s. None)\<rparr>"

definition market_of :: "(symbol \<times> rat) list \<Rightarrow> symbol \<Rightarrow> rat option" where
  "market_of quotes = map_of quotes"



text \<open>
  One configured stock; a reader of the two numbers of the sample feed line; a store that is
  empty and whose writes fail; the sample body of the quote feed.
\<close>

definition one_stock :: "stock list" where
  "one_stock = [\<lparr>s_symbol = ''600519'', s_name = ''Moutai'', s_exchange = ''XSHG''\<rparr>]"

definition sample_floats :: py_builtins where
  "sample_floats =
     \<lparr>int_of_str = (\<lambda>s. None),
      float_of_str = (\<lambda>s. if s = ''1700.00'' then Some 1700
                            else if s = ''1690.00'' then Some 1690 else None)\<rparr>"

definition failing_store :: "unit price_store" where
  "failing_store =
     \<lparr>get_latest_daily_prices = (\<lambda>db symbols. Inr []),
      upsert_daily_price = (\<lambda>db symbol px date. Inl (LedgerError ''database is locked''))\<rparr>"

definition sample_body :: string where
  \<open>sample_body = ''var hq_str_sh600519="Moutai,1695.00,1690.00,1700.00,1710.00,1680.00";''\<close>

definition three_positions :: portfolio where
  "three_positions =
     \<lparr>cash = 100000,
      positions =
        [\<lparr>coin = ''600519'', quantity = 10, avg_price = 1000, side = ''long'', leverage = 1\<rparr>,
         \<lparr>coin = ''000001'', quantity = 100, avg_price = 12, side = ''long'', leverage = 1\<rparr>,
         \<lparr>coin = ''300750'', quantity = 20, avg_price = 200, side = ''long'', leverage = 1\<rparr>]\<rparr>"

section \<open>The buy path: solvency\<close>


lemma resize_quantity_le: "resize_quantity r m k \<le> m"
  by (simp add: resize_quantity_def)

lemma execute_buy_cases [consumes 1, case_names raised rejected committed]:
  assumes price: "market_state symbol = Some price"
  obtains
    (raised) e where "execute_buy bi lg fee_rate symbol decision market_state pf db = (db, Inl e)"
  | (rejected) e where
      "execute_buy bi lg fee_rate symbol decision market_state pf db = (db, Inr (RError symbol e))"
      "e = MaxPositions \<longrightarrow> symbol \<notin> set (map coin (positions pf))"
  | (committed) q lev where
      "execute_buy bi lg fee_rate symbol decision market_state pf db
         = buy_commit lg symbol q price lev (of_int q * price * fee_rate) db"
      "0 < q" "q \<le> py_trunc (cash pf / (price * (1 + fee_rate)))"
      "price * (1 + fee_rate) \<noteq> 0" "lev \<noteq> 0"
      "of_int q * price / of_int lev + of_int q * price * fee_rate \<le> cash pf"
proof (cases "py_int bi (dict_get decision ''leverage'' (JInt 1))")
  case (Inl e)
  then show ?thesis using raised by (simp add: execute_buy_def)
next
  case lev: (Inr lev)
  show ?thesis
  proof (cases "symbol \<notin> set (remdups (map coin (positions pf))) \<and>
                max_positions \<le> length (remdups (map coin (positions pf)))")
    case True
    then show ?thesis using rejected lev price by (simp add: execute_buy_def)
  next
    case cap: False
    show ?thesis
    proof (cases "price * (1 + fee_rate) = 0")
      case True
      then show ?thesis using raised lev price cap
        by (simp add: execute_buy_def py_div_def)
    next
      case d: False
      show ?thesis
      proof (cases "py_float bi (dict_get decision ''risk_budget_pct'' (JInt 3))")
        case (Inl e)
        then show ?thesis using raised lev price cap d
          by (simp add: execute_buy_def py_div_def)
      next
        case rb: (Inr rb)
        show ?thesis
        proof (cases "py_int bi (dict_get decision ''quantity'' (JInt 0))")
          case (Inl e)
          then show ?thesis using raised lev price cap d rb
            by (simp add: execute_buy_def py_div_def)
        next
          case rq: (Inr requested)
          define q where "q = resize_quantity requested (py_trunc (cash pf / (price * (1 + fee_rate))))
              (py_trunc (cash pf * clamp_risk_pct rb / (price * (1 + fee_rate))))"
          have unfold: "execute_buy bi lg fee_rate symbol decision market_state pf db =
              (if q \<le> 0 then (db, Inr (RError symbol InsufficientCash))
               else case py_div (of_int q * price) (of_int lev) of
                      Inl e \<Rightarrow> (db, Inl e)
                    | Inr required_margin \<Rightarrow>
                        if cash pf < required_margin + of_int q * price * fee_rate
                        then (db, Inr (RError symbol InsufficientFunds))
                        else buy_commit lg symbol q price lev (of_int q * price * fee_rate) db)"
            unfolding execute_buy_def Let_def q_def
            by (simp only: lev price cap d rb rq py_div_def sum.case option.case if_False)
          show ?thesis
          proof (cases "q \<le> 0")
            case True
            then show ?thesis using rejected unfold by simp
          next
            case qpos: False
            show ?thesis
            proof (cases "lev = 0")
              case True
              then show ?thesis using raised unfold qpos by (simp add: py_div_def)
            next
              case l0: False
              show ?thesis
              proof (cases "cash pf < of_int q * price / of_int lev + of_int q * price * fee_rate")
                case True
                then show ?thesis using rejected unfold qpos l0 by (simp add: py_div_def)
              next
                case False
                have "q \<le> py_trunc (cash pf / (price * (1 + fee_rate)))"
                  unfolding q_def by (rule resize_quantity_le)
                moreover have "execute_buy bi lg fee_rate symbol decision market_state pf db
                    = buy_commit lg symbol q price lev (of_int q * price * fee_rate) db"
                  using unfold qpos l0 False by (simp add: py_div_def)
                ultimately show ?thesis using committed qpos l0 d False by simp
              qed
            qed
          qed
        qed
      qed
    qed
  qed
qed





section \<open>The buy path: position cap\<close>

lemma execute_buy_capped:
  assumes "symbol \<notin> set (map coin (positions pf))"
      and "max_positions \<le> length (remdups (map coin (positions pf)))"
  shows "execute_buy bi lg fee_rate symbol decision market_state pf db =
     (case py_int bi (dict_get decision ''leverage'' (JInt 1)) of
        Inl e \<Rightarrow> (db, Inl e)
      | Inr lev \<Rightarrow>
          (case market_state symbol of
             None \<Rightarrow> (db, Inl (KeyError symbol))
           | Some price \<Rightarrow> (db, Inr (RError symbol MaxPositions))))"
  using assms by (simp add: execute_buy_def split: sum.split option.split)

lemma buy_commit_not_error:
  "buy_commit lg symbol q price lev fee db \<noteq> (db', Inr (RError s e))"
  by (simp add: buy_commit_def split: sum.split)

lemma execute_buy_held_not_capped:
  assumes held: "symbol \<in> set (map coin (positions pf))"
  shows "execute_buy bi lg fee_rate symbol decision market_state pf db
           \<noteq> (db', Inr (RError symbol MaxPositions))"
proof (cases "market_state symbol")
  case None
  then show ?thesis by (simp add: execute_buy_def split: sum.split)
next
  case (Some price)
  then show ?thesis
  proof (cases rule: execute_buy_cases [where bi = bi and lg = lg and fee_rate = fee_rate
      and decision = decision and pf = pf and db = db])
    case (raised e)
    then show ?thesis by simp
  next
    case (rejected e)
    then show ?thesis using held by auto
  next
    case (committed q lev)
    then show ?thesis by (simp add: buy_commit_not_error)
  qed
qed

text \<open>
  Claim C2 (as amended). With three or more distinct symbols held, a buy for a symbol that is
  not held never reaches the ledger: the run either raises before the cap check (the leverage
  conversion, or the price lookup) or returns the max-positions error, and the ledger state is
  unchanged; it returns the max-positions error whenever the leverage converts and the market
  state quotes the symbol. A buy for a held symbol never returns the max-positions error.
\<close>

theorem position_cap:
  assumes full: "3 \<le> card (set (map coin (positions pf)))"
  shows "(symbol \<notin> set (map coin (positions pf)) \<longrightarrow>
            ((\<exists>e. execute_buy bi lg fee_rate symbol decision market_state pf db = (db, Inl e)) \<or>
             execute_buy bi lg fee_rate symbol decision market_state pf db
               = (db, Inr (RError symbol MaxPositions))) \<and>
            (\<forall>lev price.
               py_int bi (dict_get decision ''leverage'' (JInt 1)) = Inr lev \<longrightarrow>
               market_state symbol = Some price \<longrightarrow>
               execute_buy bi lg fee_rate symbol decision market_state pf db
                 = (db, Inr (RError symbol MaxPositions)))) \<and>
         (symbol \<in> set (map coin (positions pf)) \<longrightarrow>
            (\<forall>db'. execute_buy bi lg fee_rate symbol decision market_state pf db
                     \<noteq> (db', Inr (RError symbol MaxPositions))))"
proof -
  have len: "max_positions \<le> length (remdups (map coin (positions pf)))"
    unfolding max_positions_def using full by (simp only: List.card_set)
  have capped: "execute_buy bi lg fee_rate symbol decision market_state pf db =
     (case py_int bi (dict_get decision ''leverage'' (JInt 1)) of
        Inl e \<Rightarrow> (db, Inl e)
      | Inr lev \<Rightarrow>
          (case market_state symbol of
             None \<Rightarrow> (db, Inl (KeyError symbol))
           | Some price \<Rightarrow> (db, Inr (RError symbol MaxPositions))))"
    if "symbol \<notin> set (map coin (positions pf))"
    using that len by (rule execute_buy_capped)
  have a: "(\<exists>e. execute_buy bi lg fee_rate symbol decision market_state pf db = (db, Inl e)) \<or>
             execute_buy bi lg fee_rate symbol decision market_state pf db
               = (db, Inr (RError symbol MaxPositions))"
    if "symbol \<notin> set (map coin (positions pf))"
    unfolding capped [OF that] by (simp split: sum.split option.split)
  have b: "execute_buy bi lg fee_rate symbol decision market_state pf db
                 = (db, Inr (RError symbol MaxPositions))"
    if "symbol \<notin> set (map coin (positions pf))"
       "py_int bi (dict_get decision ''leverage'' (JInt 1)) = Inr lev"
       "market_state symbol = Some price" for lev price
    unfolding capped [OF that(1)] using that(2,3) by simp
  show ?thesis
  proof (intro conjI impI allI)
    assume "symbol \<notin> set (map coin (positions pf))"
    then show "(\<exists>e. execute_buy bi lg fee_rate symbol decision market_state pf db = (db, Inl e)) \<or>
             execute_buy bi lg fee_rate symbol decision market_state pf db
               = (db, Inr (RError symbol MaxPositions))"
      by (rule a)
  next
    fix lev price
    assume "symbol \<notin> set (map coin (positions pf))"
       "py_int bi (dict_get decision ''leverage'' (JInt 1)) = Inr lev"
       "market_state symbol = Some price"
    then show "execute_buy bi lg fee_rate symbol decision market_state pf db
                 = (db, Inr (RError symbol MaxPositions))"
      by (rule b)
  next
    fix db'
    assume "symbol \<in> set (map coin (positions pf))"
    then show "execute_buy bi lg fee_rate symbol decision market_state pf db
                     \<noteq> (db', Inr (RError symbol MaxPositions))"
      by (rule execute_buy_held_not_capped)
  qed
qed

theorem position_cap_witness:
  "3 \<le> card (set (map coin (positions three_positions))) \<and>
   ''601318'' \<notin> set (map coin (positions three_positions)) \<and>
   execute_buy no_str_numbers counting_ledger (1 / 1000) ''601318'' [(''quantity'', JInt 1)]
     (market_of [(''601318'', 50)]) three_positions 0
     = (0, Inr (RError ''601318'' MaxPositions)) \<and>
   ''600519'' \<in> set (map coin (positions three_positions)) \<and>
   execute_buy no_str_numbers counting_ledger (1 / 1000) ''600519'' [(''quantity'', JInt 1)]
     (market_of [(''600519'', 1000)]) three_positions 0
     \<noteq> (0, Inr (RError ''600519'' MaxPositions))"
proof -
  have full: "3 \<le> card (set (map coin (positions three_positions)))"
    by (simp add: three_positions_def)
  have new: "''601318'' \<notin> set (map coin (positions three_positions))"
    by (simp add: three_positions_def)
  have held: "''600519'' \<in> set (map coin (positions three_positions))"
    by (simp add: three_positions_def)
  have lev: "py_int no_str_numbers (dict_get [(''quantity'', JInt 1)] ''leverage'' (JInt 1)) = Inr 1"
    by (simp add: dict_get_def)
  have m: "market_of [(''601318'', 50)] ''601318'' = Some 50"
    by (simp add: market_of_def)
  from position_cap [OF full, where symbol = "''601318''" and bi = no_str_numbers
      and decision = "[(''quantity'', JInt 1)]" and market_state = "market_of [(''601318'', 50)]"
      and lg = counting_ledger and fee_rate = "1 / 1000" and db = 0]
    position_cap [OF full, where symbol = "''600519''" and bi = no_str_numbers
      and decision = "[(''quantity'', JInt 1)]" and market_state = "market_of [(''600519'', 1000)]"
      and lg = counting_ledger and fee_rate = "1 / 1000" and db = 0]
  show ?thesis using full new held lev m by blast
qed

theorem position_cap_counterexample:
  "execute_decisions no_str_numbers counting_ledger (1 / 1000) [''600519'', ''601318'']
     [(''601318'', JObj [(''signal'', JStr ''buy_to_enter''), (''quantity'', JInt 1),
                         (''leverage'', JNull)])]
     (market_of [(''600519'', 1000), (''601318'', 50)]) three_positions 0
   = (0, Inr [RError ''601318'' (Raised TypeError)])"
  by code_simp

section \<open>The buy path: sizing\<close>











section \<open>The close path\<close>

lemma find_Some_held:
  assumes "find (\<lambda>x. coin x = symbol) ps = Some pos"
  shows "symbol \<in> set (map coin ps) \<and> coin pos = symbol"
  using assms by (induction ps) (auto split: if_splits)

lemma execute_close_long:
  assumes pos: "find (\<lambda>x. coin x = symbol) (positions pf) = Some pos"
      and long: "side pos = ''long''"
      and price: "market_state symbol = Some p"
      and closed: "close_position lg db symbol ''long'' = Inr db1"
      and logged: "add_trade lg db1
          \<lparr>t_coin = symbol, t_signal = ''close_position'', t_quantity = quantity pos,
           t_price = p, t_leverage = leverage pos, t_side = ''long'',
           t_pnl = (p - avg_price pos) * quantity pos - quantity pos * p * fee_rate,
           t_fee = quantity pos * p * fee_rate\<rparr> = Inr db2"
  shows "execute_signal bi lg fee_rate ''close_position'' symbol decision market_state pf db
         = (db2, Inr (RClose symbol (quantity pos) p
                        ((p - avg_price pos) * quantity pos - quantity pos * p * fee_rate)
                        (quantity pos * p * fee_rate)))"
proof -
  have held: "symbol \<in> set (map coin (positions pf))"
    using find_Some_held [OF pos] by simp
  have "execute_close lg fee_rate symbol decision market_state pf db
         = (db2, Inr (RClose symbol (quantity pos) p
                        ((p - avg_price pos) * quantity pos - quantity pos * p * fee_rate)
                        (quantity pos * p * fee_rate)))"
    unfolding execute_close_def Let_def
    by (simp add: pos price long closed logged)
  then show ?thesis using held by (simp add: execute_signal_def)
qed

text \<open>
  Claim C4. A \<^verbatim>\<open>close_position\<close> decision for a symbol without a position gets the
  no-position error and the ledger is left as it was. For a long position (entry price
  \<open>avg_price\<close>, quantity \<open>q\<close>) and a current price \<open>p\<close>, when both ledger calls succeed, the
  position is closed through the ledger, the closing trade carries
  \<open>net_pnl = (p - avg_price) * q - q * p * fee_rate\<close> and \<open>fee = q * p * fee_rate\<close>, and the
  result carries quantity, price, net PnL and fee. Entry 1000, quantity 10, price 1050 and
  fee rate 0.001 give gross 500, fee 10.5 and net 489.5.
\<close>

theorem close_position_outcome:
  "(symbol \<notin> set (map coin (positions pf)) \<longrightarrow>
      execute_signal bi lg fee_rate ''close_position'' symbol decision market_state pf db
        = (db, Inr (RError symbol NoPositionToClose))) \<and>
   (\<forall>pos p db1 db2.
      find (\<lambda>x. coin x = symbol) (positions pf) = Some pos \<longrightarrow>
      side pos = ''long'' \<longrightarrow>
      market_state symbol = Some p \<longrightarrow>
      close_position lg db symbol ''long'' = Inr db1 \<longrightarrow>
      add_trade lg db1
          \<lparr>t_coin = symbol, t_signal = ''close_position'', t_quantity = quantity pos,
           t_price = p, t_leverage = leverage pos, t_side = ''long'',
           t_pnl = (p - avg_price pos) * quantity pos - quantity pos * p * fee_rate,
           t_fee = quantity pos * p * fee_rate\<rparr> = Inr db2 \<longrightarrow>
      execute_signal bi lg fee_rate ''close_position'' symbol decision market_state pf db
        = (db2, Inr (RClose symbol (quantity pos) p
                       ((p - avg_price pos) * quantity pos - quantity pos * p * fee_rate)
                       (quantity pos * p * fee_rate)))) \<and>
   execute_signal bi counting_ledger (1 / 1000) ''close_position'' symbol decision
       (market_of [(symbol, 1050)])
       \<lparr>cash = c, positions = [\<lparr>coin = symbol, quantity = 10, avg_price = 1000,
                                 side = ''long'', leverage = 1\<rparr>]\<rparr> n
     = (Suc (Suc n), Inr (RClose symbol 10 1050 (500 - 21 / 2) (21 / 2))) \<and>
   (1050 - 1000) * 10 = (500 :: rat) \<and> 10 * 1050 * (1 / 1000) = (21 / 2 :: rat) \<and>
   500 - 21 / 2 = (979 / 2 :: rat)"
proof (intro conjI impI allI)
  assume "symbol \<notin> set (map coin (positions pf))"
  then show "execute_signal bi lg fee_rate ''close_position'' symbol decision market_state pf db
        = (db, Inr (RError symbol NoPositionToClose))"
    by (simp add: execute_signal_def)
next
  fix pos p db1 db2
  assume "find (\<lambda>x. coin x = symbol) (positions pf) = Some pos"
     "side pos = ''long''" "market_state symbol = Some p"
     "close_position lg db symbol ''long'' = Inr db1"
     "add_trade lg db1
          \<lparr>t_coin = symbol, t_signal = ''close_position'', t_quantity = quantity pos,
           t_price = p, t_leverage = leverage pos, t_side = ''long'',
           t_pnl = (p - avg_price pos) * quantity pos - quantity pos * p * fee_rate,
           t_fee = quantity pos * p * fee_rate\<rparr> = Inr db2"
  then show "execute_signal bi lg fee_rate ''close_position'' symbol decision market_state pf db
        = (db2, Inr (RClose symbol (quantity pos) p
                       ((p - avg_price pos) * quantity pos - quantity pos * p * fee_rate)
                       (quantity pos * p * fee_rate)))"
    by (rule execute_close_long)
next
  show "execute_signal bi counting_ledger (1 / 1000) ''close_position'' symbol decision
       (market_of [(symbol, 1050)])
       \<lparr>cash = c, positions = [\<lparr>coin = symbol, quantity = 10, avg_price = 1000,
                                 side = ''long'', leverage = 1\<rparr>]\<rparr> n
     = (Suc (Suc n), Inr (RClose symbol 10 1050 (500 - 21 / 2) (21 / 2)))"
    by (simp add: execute_signal_def execute_close_def market_of_def counting_ledger_def)
qed simp_all

theorem close_position_outcome_witness:
  "''601318'' \<notin> set (map coin (positions three_positions)) \<and>
   execute_signal no_str_numbers counting_ledger (1 / 1000) ''close_position'' ''601318'' []
       (market_of [(''601318'', 50)]) three_positions 0
     = (0, Inr (RError ''601318'' NoPositionToClose)) \<and>
   execute_signal no_str_numbers counting_ledger (1 / 1000) ''close_position'' ''000001'' []
       (market_of [(''000001'', 11)]) three_positions 0
     = (2, Inr (RClose ''000001'' 100 11 (- 1011 / 10) (11 / 10)))"
proof -
  have new: "''601318'' \<notin> set (map coin (positions three_positions))"
    by (simp add: three_positions_def)
  have pos: "find (\<lambda>x. coin x = ''000001'') (positions three_positions)
      = Some \<lparr>coin = ''000001'', quantity = 100, avg_price = 12, side = ''long'', leverage = 1\<rparr>"
    by (simp add: three_positions_def)
  have m: "market_of [(''000001'', 11)] ''000001'' = Some 11" by (simp add: market_of_def)
  have c1: "close_position counting_ledger 0 ''000001'' ''long'' = Inr 1"
    by (simp add: counting_ledger_def)
  have c2: "add_trade counting_ledger 1 t = Inr 2" for t
    by (simp add: counting_ledger_def)
  from close_position_outcome [where symbol = "''601318''" and pf = three_positions
      and bi = no_str_numbers and lg = counting_ledger and fee_rate = "1 / 1000"
      and decision = "[]" and market_state = "market_of [(''601318'', 50)]" and db = 0,
      THEN conjunct1] new
  have a: "execute_signal no_str_numbers counting_ledger (1 / 1000) ''close_position'' ''601318'' []
       (market_of [(''601318'', 50)]) three_positions 0
     = (0, Inr (RError ''601318'' NoPositionToClose))" by simp
  from close_position_outcome [where symbol = "''000001''" and pf = three_positions
      and bi = no_str_numbers and lg = counting_ledger and fee_rate = "1 / 1000"
      and decision = "[]" and market_state = "market_of [(''000001'', 11)]" and db = 0,
      THEN conjunct2, THEN conjunct1, rule_format, OF pos _ m c1 c2]
  have b: "execute_signal no_str_numbers counting_ledger (1 / 1000) ''close_position'' ''000001'' []
       (market_of [(''000001'', 11)]) three_positions 0
     = (2, Inr (RClose ''000001'' 100 11 (- 1011 / 10) (11 / 10)))" by simp
  show ?thesis using new a b by simp
qed

section \<open>The execution pass: signal dispatch\<close>

lemma lower_char_idem: "lower_char (lower_char c) = lower_char c"
  by (simp add: lower_char_def split: option.split if_split)

lemma lower_idem: "lower (lower s) = lower s"
  by (simp add: lower_def lower_char_idem)










section \<open>The execution pass: what escapes the per-symbol handler\<close>

text \<open>
  Claim C9 asks that no per-symbol exception leaves the pass. Line 125 stands outside the
  \<^verbatim>\<open>try\<close>: a tracked decision whose signal is \<^verbatim>\<open>null\<close> raises \<^verbatim>\<open>AttributeError\<close> out of
  \<^verbatim>\<open>_execute_decisions\<close>; no result list is returned and the next symbol's \<open>hold\<close> is
  never processed.
\<close>

theorem execute_decisions_escape:
  "execute_decisions no_str_numbers counting_ledger (1 / 1000) [''600519'', ''000001'']
     [(''600519'', JObj [(''signal'', JNull)]),
      (''000001'', JObj [(''signal'', JStr ''hold'')])]
     (market_of [(''600519'', 1000), (''000001'', 12)]) \<lparr>cash = 100000, positions = []\<rparr> 0
   = (0, Inl AttributeError)"
  by code_simp

section \<open>Indicators: RSI\<close>












section \<open>The response parser: fences\<close>












subsection \<open>Stripping\<close>



















section \<open>The quote cache: upstream failure\<close>

lemma dict_set_keys: "fst ` set (dict_set k v kvs) = insert k (fst ` set kvs)"
  by (induction k v kvs rule: dict_set.induct) (simp_all add: insert_commute)

lemma dict_set_values: "set (dict_set k v kvs) \<subseteq> insert (k, v) (set kvs)"
  by (induction k v kvs rule: dict_set.induct) auto

lemma degraded_fold_keys:
  "fst ` set (foldl (\<lambda>prices s. dict_set (s_symbol s) (degraded_of s) prices) acc stocks)
     = fst ` set acc \<union> s_symbol ` set stocks"
  by (induction stocks arbitrary: acc) (auto simp: dict_set_keys)

lemma degraded_fold_values:
  "set (foldl (\<lambda>prices s. dict_set (s_symbol s) (degraded_of s) prices) acc stocks)
     \<subseteq> set acc \<union> (\<lambda>s. (s_symbol s, degraded_of s)) ` set stocks"
proof (induction stocks arbitrary: acc)
  case Nil
  then show ?case by simp
next
  case (Cons s stocks)
  have "set (foldl (\<lambda>prices s. dict_set (s_symbol s) (degraded_of s) prices)
               (dict_set (s_symbol s) (degraded_of s) acc) stocks)
          \<subseteq> set (dict_set (s_symbol s) (degraded_of s) acc)
              \<union> (\<lambda>s. (s_symbol s, degraded_of s)) ` set stocks"
    by (rule Cons.IH)
  then show ?case using dict_set_values [of "s_symbol s" "degraded_of s" acc] by auto
qed

lemma degraded_quotes_keys: "fst ` set (degraded_quotes stocks) = s_symbol ` set stocks"
  using degraded_fold_keys [of "[]" stocks] by (simp add: degraded_quotes_def)

lemma degraded_quotes_values:
  assumes "(k, p) \<in> set (degraded_quotes stocks)"
  shows "\<exists>s \<in> set stocks. k = s_symbol s \<and> p = degraded_of s"
  using degraded_fold_values [of "[]" stocks] assms
  by (auto simp: degraded_quotes_def)

lemma degraded_quotes_nonempty: "stocks \<noteq> [] \<Longrightarrow> degraded_quotes stocks \<noteq> []"
  using degraded_quotes_keys [of stocks] by (cases stocks) auto

lemma get_current_prices_fails:
  assumes stocks: "stocks = (case symbols of
                       None \<Rightarrow> configured
                     | Some syms \<Rightarrow> if syms = [] then configured
                                    else filter (\<lambda>s. s_symbol s \<in> set syms) configured)"
      and ne: "stocks \<noteq> []"
      and miss: "\<forall>addr stored_at.
          map_of (f_cache st) (''prices_'' @ join ''_'' (sort (map s_symbol stocks)))
            = Some (addr, stored_at) \<longrightarrow> cache_duration \<le> t - stored_at"
  shows "get_current_prices bi cache_duration configured (Inl e) t symbols st
           = alloc (degraded_quotes stocks) st"
proof -
  have conf: "configured \<noteq> []" using stocks ne by (auto split: option.splits if_splits)
  have hit: "(case map_of (f_cache st) (''prices_'' @ join ''_'' (sort (map s_symbol stocks))) of
                None \<Rightarrow> None
              | Some (addr, stored_at) \<Rightarrow>
                  if t - stored_at < cache_duration then Some addr else None) = None"
    using miss by (auto split: option.split)
  show ?thesis
    unfolding get_current_prices_def Let_def stocks [symmetric]
    using conf ne hit by simp
qed

lemma alloc_lookup: "alloc d st = (addr, st') \<Longrightarrow> f_heap st' ! addr = d"
  by (auto simp: alloc_def)

text \<open>
  Claim C7 (as amended). With the market open, a request that reaches the upstream (no fresh
  cache entry) and fails there: \<^verbatim>\<open>get_current_prices\<close> returns one degraded entry per requested
  configured symbol, with price 0, the configured name and exchange and no source;
  \<^verbatim>\<open>get_prices\<close> returns these very entries tagged \<open>source = live\<close> with today's date.
\<close>

theorem upstream_failure_quotes:
  assumes opened: "is_within_trading_window start_time end_time now_time"
      and stocks: "stocks = (case symbols of
                       None \<Rightarrow> configured
                     | Some syms \<Rightarrow> if syms = [] then configured
                                    else filter (\<lambda>s. s_symbol s \<in> set syms) configured)"
      and ne: "stocks \<noteq> []"
      and miss: "\<forall>addr stored_at.
          map_of (f_cache st) (''prices_'' @ join ''_'' (sort (map s_symbol stocks)))
            = Some (addr, stored_at) \<longrightarrow> cache_duration \<le> t - stored_at"
  shows "(case get_current_prices bi cache_duration configured (Inl e) t symbols st of
            (addr, st') \<Rightarrow> f_heap st' ! addr = degraded_quotes stocks) \<and>
         fst (get_prices bi cache_duration store configured start_time end_time now_time today
                (Inl e) t symbols st db)
           = Inr (map (\<lambda>(k, payload). (k, tag_quote ''live'' today payload))
                    (degraded_quotes stocks)) \<and>
         fst ` set (degraded_quotes stocks) = s_symbol ` set stocks \<and>
         (\<forall>(k, p) \<in> set (degraded_quotes stocks).
            \<exists>s \<in> set stocks. k = s_symbol s \<and> p = degraded_of s \<and>
              q_price p = 0 \<and> q_source p = None \<and>
              q_source (tag_quote ''live'' today p) = Some ''live'' \<and>
              q_price_date (tag_quote ''live'' today p) = Some today)"
proof (intro conjI)
  have gcp: "get_current_prices bi cache_duration configured (Inl e) t symbols s0
               = alloc (degraded_quotes stocks) s0"
    if "f_cache s0 = f_cache st" for s0
    using stocks ne miss unfolding that [symmetric] by (rule get_current_prices_fails)
  show "case get_current_prices bi cache_duration configured (Inl e) t symbols st of
            (addr, st') \<Rightarrow> f_heap st' ! addr = degraded_quotes stocks"
    using gcp [of st] by (simp add: alloc_def)
  have d: "degraded_quotes stocks \<noteq> []" using ne by (rule degraded_quotes_nonempty)
  show "fst (get_prices bi cache_duration store configured start_time end_time now_time today
                (Inl e) t symbols st db)
           = Inr (map (\<lambda>(k, payload). (k, tag_quote ''live'' today payload))
                    (degraded_quotes stocks))"
    unfolding get_prices_def Let_def using opened d
    by (simp add: gcp alloc_def)
  show "fst ` set (degraded_quotes stocks) = s_symbol ` set stocks"
    by (rule degraded_quotes_keys)
  show "\<forall>(k, p) \<in> set (degraded_quotes stocks).
            \<exists>s \<in> set stocks. k = s_symbol s \<and> p = degraded_of s \<and>
              q_price p = 0 \<and> q_source p = None \<and>
              q_source (tag_quote ''live'' today p) = Some ''live'' \<and>
              q_price_date (tag_quote ''live'' today p) = Some today"
  proof (intro ballI, clarify)
    fix k p
    assume "(k, p) \<in> set (degraded_quotes stocks)"
    then obtain s where "s \<in> set stocks" "k = s_symbol s" "p = degraded_of s"
      using degraded_quotes_values by blast
    then show "\<exists>s \<in> set stocks. k = s_symbol s \<and> p = degraded_of s \<and>
              q_price p = 0 \<and> q_source p = None \<and>
              q_source (tag_quote ''live'' today p) = Some ''live'' \<and>
              q_price_date (tag_quote ''live'' today p) = Some today"
      by (auto simp: degraded_of_def tag_quote_def)
  qed
qed

theorem upstream_failure_quotes_witness:
  "is_within_trading_window 34200 54000 36000 \<and>
   fst (get_prices sample_floats 5 failing_store one_stock 34200 54000 36000 ''2024-01-02''
          (Inl (LedgerError ''timeout'')) 1000 (Some [''600519'']) new_fetcher ())
     = Inr (map (\<lambda>(k, payload). (k, tag_quote ''live'' ''2024-01-02'' payload))
              (degraded_quotes one_stock)) \<and>
   degraded_quotes one_stock = [(''600519'', degraded_of (hd one_stock))]"
proof -
  have o: "is_within_trading_window 34200 54000 36000"
    by (simp add: is_within_trading_window_def)
  have s: "one_stock = (case Some [''600519''] of
                       None \<Rightarrow> one_stock
                     | Some syms \<Rightarrow> if syms = [] then one_stock
                                    else filter (\<lambda>s. s_symbol s \<in> set syms) one_stock)"
    by (simp add: one_stock_def)
  have n: "one_stock \<noteq> []" by (simp add: one_stock_def)
  have m: "\<forall>addr stored_at.
          map_of (f_cache new_fetcher) (''prices_'' @ join ''_'' (sort (map s_symbol one_stock)))
            = Some (addr, stored_at) \<longrightarrow> (5::rat) \<le> 1000 - stored_at"
    by (simp add: new_fetcher_def)
  have d: "degraded_quotes one_stock = [(''600519'', degraded_of (hd one_stock))]"
    by (simp add: degraded_quotes_def one_stock_def)
  from upstream_failure_quotes [OF o s n m, of sample_floats "LedgerError ''timeout''"
      failing_store "''2024-01-02''" "()"]
  show ?thesis using o d by simp
qed

theorem upstream_failure_quotes_counterexample:
  "fst (get_prices sample_floats 5 failing_store one_stock 34200 54000 36000 ''2024-01-02''
          (Inl (LedgerError ''timeout'')) 1000 (Some [''600519'']) new_fetcher ())
     = Inr [(''600519'',
             \<lparr>q_price = 0, q_name = ''Moutai'', q_exchange = ''XSHG'', q_change_24h = None,
              q_source = Some ''live'', q_price_date = Some ''2024-01-02''\<rparr>)]"
  by code_simp

section \<open>The quote cache: the last live snapshot\<close>

text \<open>
  Claim C6 asks for the tag \<open>previous_live\<close> on quotes served from the last live snapshot.
  A first poll with the market open records the snapshot; a second poll after the close, with
  a store that holds nothing and whose writes fail and a feed that answers with an empty
  body, serves the snapshot, and the quote still carries the tag \<open>live\<close>: the snapshot's
  entries always have a \<open>source\<close>, so the default \<open>previous_live\<close> of line 163 is never used.
\<close>

theorem previous_snapshot_keeps_live_tag:
  "(case get_prices sample_floats 5 failing_store one_stock 34200 54000 36000 ''2024-01-02''
           (Inr sample_body) 1000 (Some [''600519'']) new_fetcher () of
      (first_poll, st, db) \<Rightarrow>
        (first_poll,
         fst (get_prices sample_floats 5 failing_store one_stock 34200 54000 57600 ''2024-01-02''
                (Inr []) 22600 (Some [''600519'']) st db)))
   = (Inr [(''600519'',
            \<lparr>q_price = 1700, q_name = ''Moutai'', q_exchange = ''XSHG'',
             q_change_24h = Some (100 / 169), q_source = Some ''live'',
             q_price_date = Some ''2024-01-02''\<rparr>)],
      Inr [(''600519'',
            \<lparr>q_price = 1700, q_name = ''Moutai'', q_exchange = ''XSHG'',
             q_change_24h = Some (100 / 169), q_source = Some ''live'',
             q_price_date = Some ''2024-01-02''\<rparr>)])"
  by code_simp

end
